theory Spec2Isabelle
  imports Main
begin

section \<open>JavaScript values\<close>

text \<open>
  The values the rule lookup and the rule validator handle. A number is an integer (the
  code only compares a severity with \<open>0\<close> and reads array lengths). A symbol, a function
  and an object carry their identity: \<open>JSym n\<close> is the \<open>n\<close>-th symbol created, \<open>JObj a fs\<close>
  is the plain object at address \<open>a\<close> with its own properties \<open>fs\<close>, in the order
  \<open>Object.keys\<close> lists them, and \<open>JFun a fs\<close> is the function at address \<open>a\<close> with the
  properties \<open>fs\<close> assigned to it. Two objects are the same object exactly when their
  addresses are equal.
\<close>

datatype jsval =
    JUndefined
  | JNull
  | JBool bool
  | JNum int
  | JStr string
  | JSym nat
  | JFun nat "(string \<times> jsval) list"
  | JArr "jsval list"
  | JObj nat "(string \<times> jsval) list"

text \<open>\<open>!!v\<close>: the values that count as true in a condition.\<close>

fun truthy :: "jsval \<Rightarrow> bool" where
  "truthy JUndefined = False"
| "truthy JNull = False"
| "truthy (JBool b) = b"
| "truthy (JNum n) = (n \<noteq> 0)"
| "truthy (JStr s) = (s \<noteq> [])"
| "truthy (JSym n) = True"
| "truthy (JFun a fs) = True"
| "truthy (JArr xs) = True"
| "truthy (JObj a fs) = True"

text \<open>\<open>typeof v\<close>.\<close>

fun typeof :: "jsval \<Rightarrow> string" where
  "typeof JUndefined = ''undefined''"
| "typeof JNull = ''object''"
| "typeof (JBool b) = ''boolean''"
| "typeof (JNum n) = ''number''"
| "typeof (JStr s) = ''string''"
| "typeof (JSym n) = ''symbol''"
| "typeof (JFun a fs) = ''function''"
| "typeof (JArr xs) = ''object''"
| "typeof (JObj a fs) = ''object''"

text \<open>The decimal numeral of a natural number, as an array index is written as a key.\<close>

fun decimal :: "nat \<Rightarrow> string" where
  "decimal n = (if n < 10 then [''0123456789'' ! n]
                else decimal (n div 10) @ [''0123456789'' ! (n mod 10)])"

declare decimal.simps [simp del]

text \<open>
  The own property \<open>k\<close> of a value, if it has one: a property of an object or one assigned
  to a function, an element or the length of an array or of a string.
\<close>

fun own_property :: "jsval \<Rightarrow> string \<Rightarrow> jsval option" where
  "own_property (JObj a fs) k = map_of fs k"
| "own_property (JFun a fs) k = map_of fs k"
| "own_property (JArr xs) k =
     (if k = ''length'' then Some (JNum (int (length xs)))
      else case filter (\<lambda>i. decimal i = k) [0 ..< length xs] of
             [] \<Rightarrow> None
           | i # _ \<Rightarrow> Some (xs ! i))"
| "own_property (JStr s) k =
     (if k = ''length'' then Some (JNum (int (length s)))
      else case filter (\<lambda>i. decimal i = k) [0 ..< length s] of
             [] \<Rightarrow> None
           | i # _ \<Rightarrow> Some (JStr [s ! i]))"
| "own_property v k = None"

text \<open>
  A value that has no own property \<open>k\<close> gives for \<open>v[k]\<close> what its prototype chain holds:
  a plain object the property \<open>k\<close> of \<open>Object.prototype\<close> (\<open>toString\<close>, \<open>constructor\<close>,
  \<open>hasOwnProperty\<close>, ...), an array that of \<open>Array.prototype\<close> and then of
  \<open>Object.prototype\<close>, a function that of \<open>Function.prototype\<close> or one of its built-in
  properties (\<open>name\<close>, \<open>length\<close>), and so on. The built-in prototypes belong to the
  JavaScript engine the code runs in, not to the repository: they are a parameter of the
  model, the realm, which maps a value and a key to the inherited property, \<open>undefined\<close>
  when there is none. A getter that raises is not modelled.
\<close>

type_synonym realm = "jsval \<Rightarrow> string \<Rightarrow> jsval"

text \<open>
  \<open>v[k]\<close> for a string key: the own property, or else the inherited one. On \<open>undefined\<close>
  and \<open>null\<close> JavaScript raises a TypeError instead: the result \<open>undefined\<close> given here is
  read only where the code has tested the value before (\<open>a && a[k]\<close>), and every read
  below that is not guarded in this way tests the value itself and raises.
\<close>

definition get_property :: "realm \<Rightarrow> jsval \<Rightarrow> string \<Rightarrow> jsval" where
  "get_property realm v k =
     (if v = JUndefined \<or> v = JNull then JUndefined
      else case own_property v k of
             Some x \<Rightarrow> x
           | None \<Rightarrow> realm v k)"

text \<open>\<open>a || b\<close> and \<open>a && b\<close> on values whose evaluation has no effect.\<close>

definition js_or :: "jsval \<Rightarrow> jsval \<Rightarrow> jsval" where
  "js_or a b = (if truthy a then a else b)"

definition js_and :: "jsval \<Rightarrow> jsval \<Rightarrow> jsval" where
  "js_and a b = (if truthy a then b else a)"

section \<open>Strings\<close>

text \<open>
  \<open>str.indexOf(sep, from)\<close>, \<open>str.lastIndexOf(sep)\<close> and \<open>str.slice\<close>: the positions at
  which \<open>sep\<close> occurs in \<open>str\<close>, the first one from \<open>from\<close> on or the last one, and \<open>-1\<close>
  when there is none.
\<close>

definition occurs_at :: "string \<Rightarrow> string \<Rightarrow> nat \<Rightarrow> bool" where
  "occurs_at str sep i = (take (length sep) (drop i str) = sep)"

definition indexOf_from :: "string \<Rightarrow> string \<Rightarrow> nat \<Rightarrow> int" where
  "indexOf_from str sep from =
     (case filter (occurs_at str sep) [min from (length str) ..< Suc (length str)] of
        [] \<Rightarrow> - 1
      | i # _ \<Rightarrow> int i)"

definition indexOf :: "string \<Rightarrow> string \<Rightarrow> int" where
  "indexOf str sep = indexOf_from str sep 0"

definition lastIndexOf :: "string \<Rightarrow> string \<Rightarrow> int" where
  "lastIndexOf str sep =
     (case rev (filter (occurs_at str sep) [0 ..< Suc (length str)]) of
        [] \<Rightarrow> - 1
      | i # _ \<Rightarrow> int i)"

text \<open>An index argument of \<open>slice\<close>: a negative one counts from the end.\<close>

definition slice_index :: "nat \<Rightarrow> int \<Rightarrow> nat" where
  "slice_index len i = (if i < 0 then nat (max (int len + i) 0) else min (nat i) len)"

definition slice :: "string \<Rightarrow> int \<Rightarrow> int \<Rightarrow> string" where
  "slice str start stop =
     (let from = slice_index (length str) start; to = slice_index (length str) stop
      in take (to - from) (drop from str))"

definition slice_from :: "string \<Rightarrow> int \<Rightarrow> string" where
  "slice_from str start = drop (slice_index (length str) start) str"

text \<open>\<open>xs.join(sep)\<close> on strings.\<close>

fun join :: "string \<Rightarrow> string list \<Rightarrow> string" where
  "join sep [] = []"
| "join sep [x] = x"
| "join sep (x # y # ys) = x @ sep @ join sep (y # ys)"

text \<open>A text between double quotes, as the messages write a rule id.\<close>

definition quoted :: "string \<Rightarrow> string" where
  "quoted s = [CHR 0x22] @ s @ [CHR 0x22]"

section \<open>Errors\<close>

text \<open>
  What a \<open>throw\<close> carries. \<open>RuleLookupError\<close> is the class of the lookup module: an
  instance holds the property \<open>code\<close>, which \<open>Object.defineProperty\<close> creates from a
  descriptor that gives only \<open>value\<close> (so it is neither writable nor configurable), and
  the message of the \<open>TypeError\<close> it extends. \<open>TypeError\<close> is a plain type error,
  \<open>ReferenceError x\<close> the failure to resolve the identifier \<open>x\<close>, \<open>EngineError s\<close> the
  exception of the schema engine that refuses to compile \<open>s\<close>, and \<open>Error ruleId es\<close> the
  error \<open>validate\<close> builds from the validation errors of a rule: its message starts
  \<open>Key "rules": Key "ruleId":\<close> and lists, for every error, its data and its message.
\<close>

record lookup_error =
  code :: jsval
  code_writable :: bool
  message :: string

datatype js_error =
    TypeError
  | ReferenceError string
  | RuleLookupError lookup_error
  | EngineError jsval
  | Error string "(jsval \<times> string) list"

text \<open>
  The three static symbols of the class, in the order of their declaration, and
  \<open>RuleLookupError.codes\<close>: the values of the class's static fields that are symbols.
\<close>

definition noBuiltIn :: jsval where
  "noBuiltIn = JSym 0"

definition notInSpecifiedPlugin :: jsval where
  "notInSpecifiedPlugin = JSym 1"

definition notInAnyPlugin :: jsval where
  "notInAnyPlugin = JSym 2"

definition codes :: "jsval list" where
  "codes = filter (\<lambda>v. typeof v = ''symbol'') [noBuiltIn, notInSpecifiedPlugin, notInAnyPlugin]"

text \<open>
  \<open>new RuleLookupError(code, message)\<close>: the constructor raises a TypeError when
  \<open>typeof code === "symbol" && RuleLookupError.codes.includes(code)\<close>, and defines the
  property \<open>code\<close> otherwise.
\<close>

definition new_RuleLookupError :: "jsval \<Rightarrow> string \<Rightarrow> js_error + lookup_error" where
  "new_RuleLookupError c msg =
     (if typeof c = ''symbol'' \<and> c \<in> set codes then Inl TypeError
      else Inr \<lparr>code = c, code_writable = False, message = msg\<rparr>)"

text \<open>An assignment \<open>error.code = v\<close>: it changes a writable property only.\<close>

definition assign_code :: "lookup_error \<Rightarrow> jsval \<Rightarrow> lookup_error" where
  "assign_code e v = (if code_writable e then e\<lparr>code := v\<rparr> else e)"

text \<open>
  \<open>throw new RuleLookupError(code, message)\<close>: what is thrown is the instance, or what
  the constructor raised.
\<close>

definition throw_RuleLookupError :: "jsval \<Rightarrow> string \<Rightarrow> js_error + 'a" where
  "throw_RuleLookupError c msg =
     (case new_RuleLookupError c msg of
        Inl e \<Rightarrow> Inl e
      | Inr inst \<Rightarrow> Inl (RuleLookupError inst))"

text \<open>A result that is the failure with a \<open>RuleLookupError\<close> of the code \<open>c\<close>.\<close>

fun fails_with_code :: "jsval \<Rightarrow> js_error + 'a \<Rightarrow> bool" where
  "fails_with_code c (Inl (RuleLookupError e)) = (code e = c)"
| "fails_with_code c r = False"

section \<open>Split points\<close>

text \<open>
  \<open>enumerateSplitPoints(str, separator, { includeStart, includeEnd })\<close> of the string
  utilities, with the pairs the generator yields as a list. Its loop starts at the first
  occurrence of the separator and runs while \<open>splitPoint > 0\<close>. The test for a
  non-empty separator, which the function makes before the loop, is repeated in the loop
  so that the loop is total.
\<close>

function split_loop :: "string \<Rightarrow> string \<Rightarrow> int \<Rightarrow> (string \<times> string) list" where
  "split_loop str sep splitPoint =
     (if splitPoint > 0 \<and> sep \<noteq> [] then
        (slice str 0 splitPoint, slice_from str (splitPoint + int (length sep)))
          # split_loop str sep (indexOf_from str sep (nat (splitPoint + int (length sep))))
      else [])"
  by pat_completeness auto

lemma indexOf_from_cases:
  assumes "sep \<noteq> []"
  shows "indexOf_from str sep k = - 1 \<or>
         (int k \<le> indexOf_from str sep k \<and> indexOf_from str sep k < int (length str))"
proof (cases "filter (occurs_at str sep) [min k (length str) ..< Suc (length str)]")
  case Nil
  then show ?thesis by (simp add: indexOf_from_def)
next
  case (Cons i rest)
  have "i \<in> set (filter (occurs_at str sep) [min k (length str) ..< Suc (length str)])"
    unfolding Cons by (rule list.set_intros(1))
  then have i: "min k (length str) \<le> i" "occurs_at str sep i"
    by (simp_all only: set_filter set_upt mem_Collect_eq atLeastLessThan_iff)
  from i(2) assms have "drop i str \<noteq> []"
    by (auto simp: occurs_at_def)
  then have "i < length str" by simp
  with i(1) have "k \<le> i" by (simp add: min_def split: if_splits)
  with \<open>i < length str\<close> Cons show ?thesis
    by (simp only: indexOf_from_def list.case of_nat_le_iff of_nat_less_iff simp_thms)
qed

termination split_loop
proof (relation "measure (\<lambda>(str, sep, p). if p \<le> 0 then 0 else Suc (length str - nat p))",
    goal_cases)
  case 1
  show ?case by simp
next
  case (2 str sep p)
  then have p: "0 < p" and s: "sep \<noteq> []" by simp_all
  let ?r = "indexOf_from str sep (nat (p + int (length sep)))"
  from indexOf_from_cases [OF s, of str "nat (p + int (length sep))"]
  have "?r = - 1 \<or> (int (nat (p + int (length sep))) \<le> ?r \<and> ?r < int (length str))" .
  then show ?case
  proof
    assume "?r = - 1"
    with p show ?thesis by simp
  next
    assume b: "int (nat (p + int (length sep))) \<le> ?r \<and> ?r < int (length str)"
    have "1 \<le> int (length sep)" using s by (cases sep) simp_all
    with p b have pr: "p < ?r" "0 \<le> ?r" by linarith+
    have "nat p < nat ?r" using p pr by (simp add: nat_less_eq_zless)
    moreover have "nat ?r < length str" using b pr by (simp add: nat_less_iff)
    ultimately have "length str - nat ?r < length str - nat p" by arith
    with p b show ?thesis by simp
  qed
qed

declare split_loop.simps [simp del]

definition enumerateSplitPoints ::
  "string \<Rightarrow> string \<Rightarrow> bool \<Rightarrow> bool \<Rightarrow> js_error + (string \<times> string) list" where
  "enumerateSplitPoints str separator includeStart includeEnd =
     (if separator = [] then Inl TypeError
      else Inr ((if includeStart then [([], str)] else [])
                @ split_loop str separator (indexOf str separator)
                @ (if includeEnd then [(str, [])] else [])))"

section \<open>Rule lookup\<close>

text \<open>
  A configuration, as the lookup and the validator read it: \<open>plugins\<close> is any value
  (the lookup tests it), \<open>rules\<close> is absent or the entries of the rules object, each a
  rule id with its options array, in the order \<open>Object.entries\<close> gives them.
\<close>

record config =
  plugins :: jsval
  rules :: "(string \<times> jsval list) list option"

record resolved =
  pluginName :: string
  ruleName :: string

text \<open>
  The test the lookup makes in each of its branches,
  \<open>plugins[p] && plugins[p][objectType] && plugins[p][objectType][name]\<close>, as a condition.
\<close>

definition object_exists :: "realm \<Rightarrow> jsval \<Rightarrow> string \<Rightarrow> string \<Rightarrow> string \<Rightarrow> bool" where
  "object_exists realm ps p objectType name =
     truthy
       (js_and (get_property realm ps p)
          (js_and (get_property realm (get_property realm ps p) objectType)
             (get_property realm
                (get_property realm (get_property realm ps p) objectType) name)))"

text \<open>
  \<open>enumerateObjectIdMatches(plugins, objectType, objectId)\<close>: the splits of the id at a
  slash whose plugin has the object, in the order of the split points.
\<close>

definition enumerateObjectIdMatches ::
  "realm \<Rightarrow> jsval \<Rightarrow> string \<Rightarrow> string \<Rightarrow> js_error + (string \<times> string) list" where
  "enumerateObjectIdMatches realm ps objectType objectId =
     (case enumerateSplitPoints objectId ''/'' False False of
        Inl e \<Rightarrow> Inl e
      | Inr splits \<Rightarrow>
          Inr (filter (\<lambda>(pluginName, objectName).
                         object_exists realm ps pluginName objectType objectName)
                 splits))"

text \<open>
  \<open>resolveRuleId(ruleId, { plugins })\<close>, for a rule id that is a string: of the test
  \<open>!ruleId || typeof ruleId !== "string" || !plugins || typeof plugins !== "object"\<close>
  the second disjunct is false, and the first holds for the empty string. With two
  slashes or more the function calls \<open>enumerateRuleIdMatches(ruleId, config)\<close>; the
  module declares and imports no \<open>enumerateRuleIdMatches\<close> (its generator is
  \<open>enumerateObjectIdMatches\<close>), so evaluating the call raises a ReferenceError.
\<close>

definition resolveRuleId :: "realm \<Rightarrow> string \<Rightarrow> config \<Rightarrow> js_error + resolved" where
  "resolveRuleId realm ruleId cfg =
     (if ruleId = [] \<or> \<not> truthy (plugins cfg) \<or> typeof (plugins cfg) \<noteq> ''object'' then
        throw_RuleLookupError notInAnyPlugin
          (''Could not find '' @ quoted ruleId @ '' in any plugin.'')
      else
        let firstSlash = indexOf ruleId ''/'' in
        if firstSlash = - 1 then
          (if object_exists realm (plugins cfg) ''@'' ''rules'' ruleId then
             Inr \<lparr>pluginName = ''@'', ruleName = ruleId\<rparr>
           else
             throw_RuleLookupError noBuiltIn
               (''There is no built-in rule with the name '' @ quoted ruleId @ ''.''))
        else if firstSlash = lastIndexOf ruleId ''/'' then
          (let pluginName = slice ruleId 0 firstSlash;
               ruleName = slice_from ruleId (firstSlash + 1)
           in if object_exists realm (plugins cfg) pluginName ''rules'' ruleName then
                Inr \<lparr>pluginName = pluginName, ruleName = ruleName\<rparr>
              else
                throw_RuleLookupError notInSpecifiedPlugin
                  (''Could not find '' @ quoted ruleName @ '' in plugin '' @ quoted pluginName
                     @ ''.''))
        else Inl (ReferenceError ''enumerateRuleIdMatches''))"

text \<open>\<open>Object.keys(v)\<close>.\<close>

fun own_keys :: "jsval \<Rightarrow> string list" where
  "own_keys (JObj a fs) = map fst fs"
| "own_keys (JFun a fs) = map fst fs"
| "own_keys (JArr xs) = map decimal [0 ..< length xs]"
| "own_keys (JStr s) = map decimal [0 ..< length s]"
| "own_keys v = []"

text \<open>
  \<open>searchForPartialRuleNameMatches(ruleId, { plugins })\<close>, with the ids the generator
  yields as a list. The inner loop reads \<open>plugins[pluginName].rules\<close> with no test of
  \<open>plugins[pluginName]\<close>: on \<open>undefined\<close> or \<open>null\<close> the read raises a TypeError.
\<close>

fun matches_in_plugins :: "realm \<Rightarrow> jsval \<Rightarrow> string \<Rightarrow> string list \<Rightarrow> js_error + string list" where
  "matches_in_plugins realm ps name [] = Inr []"
| "matches_in_plugins realm ps name (p # rest) =
     (if get_property realm ps p = JUndefined \<or> get_property realm ps p = JNull
      then Inl TypeError
      else case matches_in_plugins realm ps name rest of
             Inl e \<Rightarrow> Inl e
           | Inr found \<Rightarrow>
               Inr ((if truthy
                          (js_and (get_property realm (get_property realm ps p) ''rules'')
                             (get_property realm
                                (get_property realm (get_property realm ps p) ''rules'') name))
                     then [p @ ''/'' @ name] else []) @ found))"

fun matches_for_names :: "realm \<Rightarrow> jsval \<Rightarrow> string list \<Rightarrow> js_error + string list" where
  "matches_for_names realm ps [] = Inr []"
| "matches_for_names realm ps (name # names) =
     (case matches_in_plugins realm ps name (own_keys ps) of
        Inl e \<Rightarrow> Inl e
      | Inr found \<Rightarrow>
          (case matches_for_names realm ps names of
             Inl e \<Rightarrow> Inl e
           | Inr others \<Rightarrow> Inr (found @ others)))"

definition searchForPartialRuleNameMatches :: "realm \<Rightarrow> string \<Rightarrow> config \<Rightarrow> js_error + string list" where
  "searchForPartialRuleNameMatches realm ruleId cfg =
     (if \<not> truthy (plugins cfg) then Inr []
      else case enumerateSplitPoints ruleId ''/'' True False of
             Inl e \<Rightarrow> Inl e
           | Inr splits \<Rightarrow> matches_for_names realm (plugins cfg) (map snd splits))"

section \<open>The schema engine\<close>

text \<open>
  The schema engine (ajv) is a dependency of the repository, not part of it. The code
  below takes it as a parameter: \<open>ajv.compile(schema)\<close> raises (\<open>None\<close>) or returns a
  compiled schema, a function that, called on a value, returns \<open>true\<close> and leaves its
  \<open>errors\<close> at \<open>null\<close> (\<open>None\<close>), or returns \<open>false\<close> and leaves the list of its
  errors. Of an error the code reads \<open>dataPath\<close>, \<open>keyword\<close>, \<open>params.type\<close>, \<open>data\<close>
  and \<open>message\<close>. The engine's own cache of compiled schemas, and \<open>ajv.removeSchema\<close>
  that evicts from it, are not modelled.
\<close>

record ajv_error =
  dataPath :: string
  keyword :: string
  params_type :: jsval
  error_data :: jsval
  error_message :: string

type_synonym compiled_schema = "jsval \<Rightarrow> ajv_error list option"

type_synonym schema_engine = "jsval \<Rightarrow> compiled_schema option"

section \<open>Compiling a schema\<close>

definition emptyArray :: "string list" where
  "emptyArray = []"

definition alwaysSucceedsCompiledSchema :: "jsval \<Rightarrow> string list" where
  "alwaysSucceedsCompiledSchema object = emptyArray"

text \<open>
  \<open>compileJsonSchema(schema)\<close>: the \<open>catch\<close> returns \<open>alwaysSucceedsCompiledSchema\<close>
  when \<open>ajv.compile\<close> raises.
\<close>

definition compileJsonSchema :: "schema_engine \<Rightarrow> jsval \<Rightarrow> jsval \<Rightarrow> string list" where
  "compileJsonSchema ajv schema =
     (case ajv schema of
        None \<Rightarrow> alwaysSucceedsCompiledSchema
      | Some compiledSchema \<Rightarrow>
          (\<lambda>object.
             case compiledSchema object of
               None \<Rightarrow> emptyArray
             | Some errors \<Rightarrow>
                 map (\<lambda>error. dataPath error @ '' '' @ error_message error @ ''.'') errors))"

section \<open>The options schema of a rule\<close>

text \<open>
  \<open>validateJsonSchemaOnlyAcceptsArraysAtTopLevel(schema)\<close> of the configuration helpers:
  the schema is compiled and run on \<open>undefined\<close>; the answer is \<open>false\<close> when the
  compilation raises, when the run leaves no errors, and when one of the top-level
  \<open>type\<close> errors names a type other than \<open>"array"\<close>.
\<close>

definition validateJsonSchemaOnlyAcceptsArraysAtTopLevel :: "schema_engine \<Rightarrow> jsval \<Rightarrow> bool" where
  "validateJsonSchemaOnlyAcceptsArraysAtTopLevel ajv schema =
     (case ajv schema of
        None \<Rightarrow> False
      | Some compiledSchema \<Rightarrow>
          (case compiledSchema JUndefined of
             None \<Rightarrow> False
           | Some errors \<Rightarrow>
               (let topLevelTypeErrors =
                      filter (\<lambda>error. dataPath error = [] \<and> keyword error = ''type'') errors
                in if list_ex (\<lambda>error. params_type error \<noteq> JStr ''array'') topLevelTypeErrors
                   then False
                   else True)))"

text \<open>\<open>rule.schema || rule.meta && rule.meta.schema\<close>.\<close>

definition declared_schema :: "realm \<Rightarrow> jsval \<Rightarrow> jsval" where
  "declared_schema realm rule =
     js_or (get_property realm rule ''schema'')
       (js_and (get_property realm rule ''meta'')
          (get_property realm (get_property realm rule ''meta'') ''schema''))"

text \<open>
  The object an array of schemas is wrapped in. An object literal creates a new object:
  the functions that evaluate one take the next free address \<open>h\<close> and return the next
  free address with their result.
\<close>

definition wrap_array_schema :: "jsval list \<Rightarrow> nat \<Rightarrow> jsval" where
  "wrap_array_schema schema h =
     (if schema \<noteq> [] then
        JObj h [(''type'', JStr ''array''), (''items'', JArr schema), (''minItems'', JNum 0),
                (''maxItems'', JNum (int (length schema)))]
      else
        JObj h [(''type'', JStr ''array''), (''minItems'', JNum 0), (''maxItems'', JNum 0)])"

text \<open>
  \<open>getRuleOptionsSchema(rule)\<close> of the configuration helpers that check the top level of
  a schema. For a schema that is no array it returns \<open>null\<close> when
  \<open>validateJsonSchemaOnlyAcceptsArraysAtTopLevel(schema)\<close> holds, and the schema when it
  does not.
\<close>

definition getRuleOptionsSchema :: "realm \<Rightarrow> schema_engine \<Rightarrow> jsval \<Rightarrow> nat \<Rightarrow> jsval \<times> nat" where
  "getRuleOptionsSchema realm ajv rule h =
     (if \<not> truthy rule then (JNull, h)
      else
        let schema = declared_schema realm rule in
        case schema of
          JArr ss \<Rightarrow> (wrap_array_schema ss h, Suc h)
        | _ \<Rightarrow>
            if typeof schema \<noteq> ''object'' then (JNull, h)
            else if validateJsonSchemaOnlyAcceptsArraysAtTopLevel ajv schema then (JNull, h)
            else (schema, h))"

text \<open>
  \<open>getRuleOptionsSchema(rule)\<close> of the configuration helpers that look a rule up with
  \<open>resolveRuleId\<close>, which are the helpers the rule validator imports: it wraps an array
  and leaves any other schema alone (\<open>schema || null\<close>).
\<close>

definition getRuleOptionsSchema_lookup :: "realm \<Rightarrow> jsval \<Rightarrow> nat \<Rightarrow> jsval \<times> nat" where
  "getRuleOptionsSchema_lookup realm rule h =
     (if \<not> truthy rule then (JNull, h)
      else
        let schema = declared_schema realm rule in
        case schema of
          JArr ss \<Rightarrow> (wrap_array_schema ss h, Suc h)
        | _ \<Rightarrow> (js_or schema JNull, h))"

text \<open>
  \<open>getRuleFromConfig(ruleId, config)\<close> of the same helpers: a rule that is a function is
  wrapped in a new object \<open>{ create: rule }\<close>.
\<close>

definition getRuleFromConfig :: "realm \<Rightarrow> string \<Rightarrow> config \<Rightarrow> nat \<Rightarrow> js_error + jsval \<times> nat" where
  "getRuleFromConfig realm ruleId cfg h =
     (case resolveRuleId realm ruleId cfg of
        Inl e \<Rightarrow> Inl e
      | Inr r \<Rightarrow>
          (let rule = get_property realm
                        (get_property realm
                           (get_property realm (plugins cfg) (pluginName r)) ''rules'')
                        (ruleName r)
           in if typeof rule = ''function'' then Inr (JObj h [(''create'', rule)], Suc h)
              else Inr (rule, h)))"

section \<open>The rule validator\<close>

text \<open>
  \<open>resolveRule(ruleId, config)\<close>. \<open>ruleReplacements\<close> is the table of
  \<open>conf/replacements.json\<close>, a parameter here: the replacements of a removed rule, or
  nothing. An error that is no \<open>RuleLookupError\<close> is thrown again as it is.
\<close>

definition resolveRule ::
  "realm \<Rightarrow> (string \<Rightarrow> string list option) \<Rightarrow> string \<Rightarrow> config \<Rightarrow> nat \<Rightarrow> js_error + jsval \<times> nat" where
  "resolveRule realm ruleReplacements ruleId cfg h =
     (case getRuleFromConfig realm ruleId cfg h of
        Inr found \<Rightarrow> Inr found
      | Inl (RuleLookupError lookupError) \<Rightarrow>
          (let errorMessageHeader = ''Key '' @ quoted ''rules'' @ '': Key '' @ quoted ruleId in
           case ruleReplacements ruleId of
             Some replacements \<Rightarrow>
               throw_RuleLookupError noBuiltIn
                 (errorMessageHeader @ '': Rule '' @ quoted ruleId
                    @ '' was removed and replaced by '' @ quoted (join '', '' replacements) @ ''.'')
           | None \<Rightarrow>
               (case searchForPartialRuleNameMatches realm ruleId cfg of
                  Inl e \<Rightarrow> Inl e
                | Inr potentialAlternatives \<Rightarrow>
                    if potentialAlternatives \<noteq> [] then
                      throw_RuleLookupError (code lookupError)
                        (errorMessageHeader @ '': '' @ message lookupError @ ''. Did you mean ''
                           @ join '', '' (map quoted potentialAlternatives) @ ''?'')
                    else
                      throw_RuleLookupError (code lookupError)
                        (errorMessageHeader @ '': '' @ message lookupError)))
      | Inl e \<Rightarrow> Inl e)"

text \<open>
  What \<open>validate\<close> does is observed through a log of the calls it makes: the lookup of a
  rule, the reading of its options schema, \<open>ajv.compile\<close> on behalf of a rule (with
  whether it returned a compiled schema) and the run of a compiled schema on options.
\<close>

datatype call =
    ResolveRule string
  | GetRuleOptionsSchema jsval
  | Compile jsval jsval bool
  | RunValidator jsval "jsval list"

text \<open>
  A \<open>RuleValidator\<close> in its surroundings: its \<open>validators\<close>, a WeakMap from objects to
  compiled schemas, keyed by the address of the object; the next free address of the
  heap; and the log of the calls made so far.
\<close>

record rule_validator =
  validators :: "nat \<Rightarrow> compiled_schema option"
  next_address :: nat
  calls :: "call list"

definition new_RuleValidator :: "nat \<Rightarrow> rule_validator" where
  "new_RuleValidator h = \<lparr>validators = Map.empty, next_address = h, calls = []\<rparr>"

text \<open>
  The operations of a WeakMap. Only an object can be a key; \<open>set\<close> raises a TypeError on
  any other value. Arrays and functions are objects too, but \<open>validate\<close> passes neither
  to \<open>set\<close>: a rule that is a function has been wrapped in a plain object by
  \<open>getRuleFromConfig\<close>, and \<open>validate\<close> stores under a rule whose \<open>schema\<close> or
  \<open>meta.schema\<close> is not absent, which an array has only in a realm where
  \<open>Array.prototype\<close> declares one. So a key that is not a plain object is never found.
\<close>

fun weak_key :: "jsval \<Rightarrow> nat option" where
  "weak_key (JObj a fs) = Some a"
| "weak_key v = None"

definition weakmap_has :: "(nat \<Rightarrow> 'v option) \<Rightarrow> jsval \<Rightarrow> bool" where
  "weakmap_has m k = (case weak_key k of None \<Rightarrow> False | Some a \<Rightarrow> m a \<noteq> None)"

definition weakmap_get :: "(nat \<Rightarrow> 'v option) \<Rightarrow> jsval \<Rightarrow> 'v option" where
  "weakmap_get m k = (case weak_key k of None \<Rightarrow> None | Some a \<Rightarrow> m a)"

definition weakmap_set :: "(nat \<Rightarrow> 'v option) \<Rightarrow> jsval \<Rightarrow> 'v \<Rightarrow> js_error + (nat \<Rightarrow> 'v option)" where
  "weakmap_set m k v = (case weak_key k of None \<Rightarrow> Inl TypeError | Some a \<Rightarrow> Inr (m(a \<mapsto> v)))"

text \<open>\<open>xs[i]\<close> on an array.\<close>

definition element :: "jsval list \<Rightarrow> nat \<Rightarrow> jsval" where
  "element xs i = (if i < length xs then xs ! i else JUndefined)"

text \<open>
  The block of \<open>validate\<close> that compiles and caches the validator of a rule the first
  time: \<open>if (!this.validators.has(rule)) { ... }\<close>.
\<close>

definition precompile :: "realm \<Rightarrow> schema_engine \<Rightarrow> jsval \<Rightarrow> rule_validator \<Rightarrow> js_error option \<times> rule_validator" where
  "precompile realm ajv rule st =
     (if \<not> weakmap_has (validators st) rule then
        (case getRuleOptionsSchema_lookup realm rule (next_address st) of
           (schema, h) \<Rightarrow>
             (let st1 = st\<lparr>next_address := h, calls := calls st @ [GetRuleOptionsSchema rule]\<rparr> in
              if truthy schema then
                (case ajv schema of
                   None \<Rightarrow>
                     (Some (EngineError schema),
                      st1\<lparr>calls := calls st1 @ [Compile rule schema False]\<rparr>)
                 | Some compiled \<Rightarrow>
                     (case weakmap_set (validators st1) rule compiled of
                        Inl e \<Rightarrow> (Some e, st1\<lparr>calls := calls st1 @ [Compile rule schema True]\<rparr>)
                      | Inr m \<Rightarrow>
                          (None, st1\<lparr>validators := m,
                                      calls := calls st1 @ [Compile rule schema True]\<rparr>)))
              else (None, st1)))
      else (None, st))"

text \<open>
  The body of the loop of \<open>validate\<close>, for one entry of \<open>config.rules\<close>: the result is the
  error thrown, if any, and the state in which the body ends.
\<close>

definition validate_entry ::
  "realm \<Rightarrow> schema_engine \<Rightarrow> (string \<Rightarrow> string list option) \<Rightarrow> config \<Rightarrow> rule_validator
     \<Rightarrow> string \<times> jsval list \<Rightarrow> js_error option \<times> rule_validator" where
  "validate_entry realm ajv ruleReplacements cfg st entry =
     (case entry of (ruleId, ruleOptions) \<Rightarrow>
        if ruleId = ''__proto__'' then (None, st)
        else if element ruleOptions 0 = JNum 0 then (None, st)
        else
          (case resolveRule realm ruleReplacements ruleId cfg (next_address st) of
             Inl e \<Rightarrow> (Some e, st\<lparr>calls := calls st @ [ResolveRule ruleId]\<rparr>)
           | Inr (rule, h) \<Rightarrow>
               (case precompile realm ajv rule
                       (st\<lparr>next_address := h, calls := calls st @ [ResolveRule ruleId]\<rparr>) of
                  (Some e, st1) \<Rightarrow> (Some e, st1)
                | (None, st1) \<Rightarrow>
                    (case weakmap_get (validators st1) rule of
                       None \<Rightarrow> (None, st1)
                     | Some validateRule \<Rightarrow>
                         (let st2 = st1\<lparr>calls := calls st1
                                            @ [RunValidator rule (drop 1 ruleOptions)]\<rparr> in
                          case validateRule (JArr (drop 1 ruleOptions)) of
                            None \<Rightarrow> (None, st2)
                          | Some errors \<Rightarrow>
                              (Some (Error ruleId
                                       (map (\<lambda>error. (error_data error, error_message error))
                                          errors)),
                               st2))))))"

fun validate_entries ::
  "realm \<Rightarrow> schema_engine \<Rightarrow> (string \<Rightarrow> string list option) \<Rightarrow> config \<Rightarrow> rule_validator
     \<Rightarrow> (string \<times> jsval list) list \<Rightarrow> js_error option \<times> rule_validator" where
  "validate_entries realm ajv ruleReplacements cfg st [] = (None, st)"
| "validate_entries realm ajv ruleReplacements cfg st (entry # entries) =
     (case validate_entry realm ajv ruleReplacements cfg st entry of
        (Some e, st1) \<Rightarrow> (Some e, st1)
      | (None, st1) \<Rightarrow> validate_entries realm ajv ruleReplacements cfg st1 entries)"

text \<open>\<open>validate(config)\<close>: nothing is done when \<open>config.rules\<close> is absent.\<close>

definition validate ::
  "realm \<Rightarrow> schema_engine \<Rightarrow> (string \<Rightarrow> string list option) \<Rightarrow> config \<Rightarrow> rule_validator
     \<Rightarrow> js_error option \<times> rule_validator" where
  "validate realm ajv ruleReplacements cfg st =
     (case rules cfg of
        None \<Rightarrow> (None, st)
      | Some entries \<Rightarrow> validate_entries realm ajv ruleReplacements cfg st entries)"

text \<open>A sequence of calls of \<open>validate\<close> on one validator, each on its configuration.\<close>

fun validate_all ::
  "realm \<Rightarrow> schema_engine \<Rightarrow> (string \<Rightarrow> string list option) \<Rightarrow> rule_validator \<Rightarrow> config list
     \<Rightarrow> rule_validator" where
  "validate_all realm ajv ruleReplacements st [] = st"
| "validate_all realm ajv ruleReplacements st (cfg # cfgs) =
     validate_all realm ajv ruleReplacements (snd (validate realm ajv ruleReplacements cfg st)) cfgs"

section \<open>A reference engine\<close>

text \<open>
  Modelled from the spec: the schema engine (ajv), an external dependency the repository
  holds no code of. The spec gives its interface (\<open>compile(schemaObject) -> validatorFn\<close>,
  with the list of errors after a failing call) and, for the schema an array of schemas is
  wrapped in, what it must do: an options array with \<open>minItems\<close>, \<open>maxItems\<close> and an
  ordered \<open>items\<close> list, \<open>option[i]\<close> validated against \<open>schema[i]\<close>, and an array longer
  than the declared maximum rejected. This engine implements the keywords \<open>type\<close>,
  \<open>enum\<close>, \<open>minItems\<close>, \<open>maxItems\<close> and \<open>items\<close> (positional) in that way and ignores
  every other keyword. It refuses to compile what is no schema: a value that is neither
  an object nor a boolean, a \<open>type\<close> that names no type, a bound that is no number or
  is negative, an \<open>enum\<close> or \<open>items\<close> that is no array.
\<close>

fun type_matches :: "string \<Rightarrow> jsval \<Rightarrow> bool" where
  "type_matches t (JArr xs) = (t = ''array'')"
| "type_matches t (JObj a fs) = (t = ''object'')"
| "type_matches t (JStr s) = (t = ''string'')"
| "type_matches t (JNum n) = (t = ''number'' \<or> t = ''integer'')"
| "type_matches t (JBool b) = (t = ''boolean'')"
| "type_matches t JNull = (t = ''null'')"
| "type_matches t v = False"

definition schema_error :: "string \<Rightarrow> string \<Rightarrow> jsval \<Rightarrow> jsval \<Rightarrow> string \<Rightarrow> ajv_error" where
  "schema_error path kw ty v msg =
     \<lparr>dataPath = path, keyword = kw, params_type = ty, error_data = v, error_message = msg\<rparr>"

fun schema_errors :: "jsval \<Rightarrow> string \<Rightarrow> jsval \<Rightarrow> ajv_error list"
  and keywords_errors :: "(string \<times> jsval) list \<Rightarrow> string \<Rightarrow> jsval \<Rightarrow> ajv_error list"
  and items_errors :: "jsval list \<Rightarrow> string \<Rightarrow> nat \<Rightarrow> jsval list \<Rightarrow> ajv_error list"
where
  "schema_errors (JObj a fs) path v = keywords_errors fs path v"
| "schema_errors (JBool b) path v =
     (if b then [] else [schema_error path ''false schema'' JUndefined v ''boolean schema is false''])"
| "schema_errors s path v = []"
| "keywords_errors [] path v = []"
| "keywords_errors ((k, JStr t) # fs) path v =
     (if k = ''type'' \<and> \<not> type_matches t v
      then [schema_error path ''type'' (JStr t) v (''should be '' @ t)] else [])
     @ keywords_errors fs path v"
| "keywords_errors ((k, JNum n) # fs) path v =
     (case v of
        JArr xs \<Rightarrow>
          (if k = ''minItems'' \<and> int (length xs) < n
           then [schema_error path ''minItems'' JUndefined v
                   (''should NOT have fewer than '' @ decimal (nat n) @ '' items'')]
           else if k = ''maxItems'' \<and> n < int (length xs)
           then [schema_error path ''maxItems'' JUndefined v
                   (''should NOT have more than '' @ decimal (nat n) @ '' items'')]
           else [])
      | _ \<Rightarrow> [])
     @ keywords_errors fs path v"
| "keywords_errors ((k, JArr ss) # fs) path v =
     (if k = ''enum'' \<and> v \<notin> set ss
      then [schema_error path ''enum'' JUndefined v ''should be equal to one of the allowed values'']
      else if k = ''items'' then (case v of JArr xs \<Rightarrow> items_errors ss path 0 xs | _ \<Rightarrow> [])
      else [])
     @ keywords_errors fs path v"
| "keywords_errors ((k, s) # fs) path v = keywords_errors fs path v"
| "items_errors [] path i xs = []"
| "items_errors (s # ss) path i [] = []"
| "items_errors (s # ss) path i (x # xs) =
     schema_errors s (path @ ''['' @ decimal i @ '']'') x @ items_errors ss path (Suc i) xs"

fun compilable :: "jsval \<Rightarrow> bool"
  and compilable_keywords :: "(string \<times> jsval) list \<Rightarrow> bool"
  and compilable_items :: "jsval list \<Rightarrow> bool"
where
  "compilable (JObj a fs) = compilable_keywords fs"
| "compilable (JBool b) = True"
| "compilable s = False"
| "compilable_keywords [] = True"
| "compilable_keywords ((k, JArr ss) # fs) =
     ((k = ''items'' \<longrightarrow> compilable_items ss) \<and> compilable_keywords fs)"
| "compilable_keywords ((k, s) # fs) =
     ((k = ''type'' \<longrightarrow>
         s \<in> JStr ` {''array'', ''object'', ''string'', ''number'', ''integer'', ''boolean'', ''null''})
      \<and> (k = ''minItems'' \<or> k = ''maxItems'' \<longrightarrow> (case s of JNum n \<Rightarrow> 0 \<le> n | _ \<Rightarrow> False))
      \<and> (k = ''enum'' \<or> k = ''items'' \<longrightarrow> False)
      \<and> compilable_keywords fs)"
| "compilable_items [] = True"
| "compilable_items (s # ss) = (compilable s \<and> compilable_items ss)"

definition reference_engine :: schema_engine where
  "reference_engine schema =
     (if compilable schema then
        Some (\<lambda>v. case schema_errors schema [] v of [] \<Rightarrow> None | es \<Rightarrow> Some es)
      else None)"

section \<open>Reading the log, and the addresses in use\<close>

text \<open>
  A call of \<open>ajv.compile\<close> on behalf of the object at the address \<open>a\<close>, and one that
  returned a compiled schema. In a log where the object is \<open>never_recompiled\<close>, no call of
  \<open>ajv.compile\<close> on its behalf follows one that returned a compiled schema.
\<close>

fun is_compile_for :: "nat \<Rightarrow> call \<Rightarrow> bool" where
  "is_compile_for a (Compile (JObj b fs) s ok) = (a = b)"
| "is_compile_for a c = False"

fun is_compiled_for :: "nat \<Rightarrow> call \<Rightarrow> bool" where
  "is_compiled_for a (Compile (JObj b fs) s ok) = (a = b \<and> ok)"
| "is_compiled_for a c = False"

fun never_recompiled :: "nat \<Rightarrow> call list \<Rightarrow> bool" where
  "never_recompiled a [] = True"
| "never_recompiled a (c # cs) =
     ((if is_compiled_for a c then \<not> list_ex (is_compile_for a) cs else True)
      \<and> never_recompiled a cs)"

fun is_compile :: "call \<Rightarrow> bool" where
  "is_compile (Compile rule s ok) = True"
| "is_compile c = False"

text \<open>
  The addresses of the plain objects in a value, the values that can be keys of the
  cache. A configuration is allocated below \<open>h\<close> when every such object of its plugins
  is: an object that exists when \<open>validate\<close> is called lies below the next free address.
\<close>

fun addresses :: "jsval \<Rightarrow> nat set"
  and addresses_fields :: "(string \<times> jsval) list \<Rightarrow> nat set"
  and addresses_list :: "jsval list \<Rightarrow> nat set"
where
  "addresses (JObj a fs) = insert a (addresses_fields fs)"
| "addresses (JFun a fs) = addresses_fields fs"
| "addresses (JArr xs) = addresses_list xs"
| "addresses v = {}"
| "addresses_fields [] = {}"
| "addresses_fields ((k, v) # fs) = addresses v \<union> addresses_fields fs"
| "addresses_list [] = {}"
| "addresses_list (x # xs) = addresses x \<union> addresses_list xs"

definition allocated :: "config \<Rightarrow> nat \<Rightarrow> bool" where
  "allocated cfg h = (\<forall>a \<in> addresses (plugins cfg). a < h)"

text \<open>
  A realm is allocated below \<open>h\<close> when every plain object its prototypes hold is: the
  built-in objects exist before any object the program creates.
\<close>

definition realm_allocated :: "realm \<Rightarrow> nat \<Rightarrow> bool" where
  "realm_allocated realm h = (\<forall>v k. \<forall>a \<in> addresses (realm v k). a < h)"

section \<open>Invariants of the validator\<close>

text \<open>
  Two properties every call of \<open>validate\<close> keeps. The cache is sound for an object when
  the log never recompiles it and a compiled schema in the log is a validator in the
  cache. The cache is allocated when each of its keys lies below the next free address.
\<close>

definition cache_sound :: "nat \<Rightarrow> rule_validator \<Rightarrow> bool" where
  "cache_sound a st =
     (never_recompiled a (calls st)
      \<and> (list_ex (is_compiled_for a) (calls st) \<longrightarrow> validators st a \<noteq> None))"

definition cache_allocated :: "rule_validator \<Rightarrow> bool" where
  "cache_allocated st = (\<forall>a. validators st a \<noteq> None \<longrightarrow> a < next_address st)"

section \<open>Configurations used as examples\<close>

text \<open>
  The plugins of the ambiguity example: \<open>{ a: { rules: { "3/4": {} } }, "a/3": { rules:
  { "4": {} } } }\<close>.
\<close>

definition ambiguous_config :: config where
  "ambiguous_config =
     \<lparr>plugins =
        JObj 1 [(''a'', JObj 2 [(''rules'', JObj 3 [(''3/4'', JObj 4 [])])]),
                (''a/3'', JObj 5 [(''rules'', JObj 6 [(''4'', JObj 7 [])])])],
      rules = None\<rparr>"

text \<open>
  \<open>{ plugins: { "@": { rules: { foo: {} } }, a: { rules: { "1": {} } } } }\<close>, and the
  configuration \<open>{}\<close> of the lookup's test "plugins missing".
\<close>

definition small_config :: config where
  "small_config =
     \<lparr>plugins =
        JObj 1 [(''@'', JObj 2 [(''rules'', JObj 3 [(''foo'', JObj 4 [])])]),
                (''a'', JObj 5 [(''rules'', JObj 6 [(''1'', JObj 7 [])])])],
      rules = None\<rparr>"

definition missing_plugins :: config where
  "missing_plugins = \<lparr>plugins = JUndefined, rules = None\<rparr>"

text \<open>
  Rules with a schema: \<open>{ schema: { type: "array" } }\<close>, \<open>{ meta: { schema: { type:
  "object" } } }\<close>, \<open>{ schema: [{ enum: [0] }] }\<close> and \<open>{ schema: [] }\<close>.
\<close>

definition array_only_rule :: jsval where
  "array_only_rule = JObj 10 [(''schema'', JObj 11 [(''type'', JStr ''array'')])]"

definition object_schema_rule :: jsval where
  "object_schema_rule = JObj 12 [(''meta'', JObj 13 [(''schema'', JObj 14 [(''type'', JStr ''object'')])])]"



text \<open>An empty table of replacements.\<close>

definition no_replacements :: "string \<Rightarrow> string list option" where
  "no_replacements ruleId = None"

text \<open>
  \<open>{ plugins: {}, rules: { "some-rule": [0, "anything"] } }\<close>; a configuration in which
  \<open>"foo"\<close> and \<open>"p/foo"\<close> are the same rule object, with the schema \<open>[{ enum: [0] }]\<close>;
  and one whose built-in rule \<open>"foo"\<close> is a function.
\<close>

definition disabled_config :: config where
  "disabled_config =
     \<lparr>plugins = JObj 1 [], rules = Some [(''some-rule'', [JNum 0, JStr ''anything''])]\<rparr>"



definition function_config :: config where
  "function_config =
     \<lparr>plugins = JObj 1 [(''@'', JObj 2 [(''rules'', JObj 3 [(''foo'', JFun 7 [])])])],
      rules = Some [(''foo'', [JNum 2, JStr ''x''])]\<rparr>"



section \<open>A realm for the examples\<close>

text \<open>
  The realm in which the examples are evaluated. Every value that has properties
  inherits the methods of \<open>Object.prototype\<close>; \<open>__proto__\<close> gives a plain object
  \<open>Object.prototype\<close> itself, which inherits nothing, and any other value its nearer
  prototype. The members of the nearer prototypes (\<open>Array.prototype\<close>,
  \<open>Function.prototype\<close>, \<open>String.prototype\<close>, ...) differ between the editions of the
  language and are not listed: no example reads one. The theorems below hold for every
  realm, so also for one that lists them.
\<close>

definition object_prototype_methods :: "(string \<times> jsval) list" where
  "object_prototype_methods =
     [(''constructor'', JFun 50 []), (''__defineGetter__'', JFun 51 []),
      (''__defineSetter__'', JFun 52 []), (''hasOwnProperty'', JFun 53 []),
      (''__lookupGetter__'', JFun 54 []), (''__lookupSetter__'', JFun 55 []),
      (''isPrototypeOf'', JFun 56 []), (''propertyIsEnumerable'', JFun 57 []),
      (''toString'', JFun 58 []), (''valueOf'', JFun 59 []), (''toLocaleString'', JFun 60 [])]"

definition object_prototype :: jsval where
  "object_prototype = JObj 49 object_prototype_methods"

fun nearer_prototype :: "jsval \<Rightarrow> jsval" where
  "nearer_prototype (JObj a fs) =
     (if JObj a fs = object_prototype then JNull else object_prototype)"
| "nearer_prototype (JArr xs) = JObj 48 []"
| "nearer_prototype (JFun a fs) = JFun 47 []"
| "nearer_prototype (JStr s) = JObj 46 []"
| "nearer_prototype (JNum n) = JObj 45 []"
| "nearer_prototype (JBool b) = JObj 44 []"
| "nearer_prototype (JSym n) = JObj 43 []"
| "nearer_prototype v = JUndefined"

definition example_realm :: realm where
  "example_realm v k =
     (if k = ''__proto__'' then nearer_prototype v
      else if v = object_prototype then JUndefined
      else case map_of object_prototype_methods k of
             Some f \<Rightarrow> f
           | None \<Rightarrow> JUndefined)"

section \<open>Where a separator occurs\<close>

lemma occurs_at_single: "occurs_at str [c] i \<longleftrightarrow> i < length str \<and> str ! i = c"
proof (cases "i < length str")
  case True
  then obtain x xs where "drop i str = x # xs" "x = str ! i"
    by (metis Cons_nth_drop_Suc)
  then show ?thesis using True by (simp add: occurs_at_def)
next
  case False
  then show ?thesis by (simp add: occurs_at_def)
qed

lemma indexOf_absent: "c \<notin> set str \<Longrightarrow> indexOf str [c] = - 1"
proof -
  assume a: "c \<notin> set str"
  have "filter (occurs_at str [c]) [min 0 (length str) ..< Suc (length str)] = []"
    using a by (auto simp: filter_empty_conv occurs_at_single)
  then show ?thesis by (simp add: indexOf_def indexOf_from_def)
qed

lemma upt_split: "k < n \<Longrightarrow> [0 ..< n] = [0 ..< k] @ k # [Suc k ..< n]"
  by (metis le_add1 less_imp_add_positive less_imp_le_nat plus_nat.add_0 upt_add_eq_append upt_conv_Cons)

lemma indexOf_first:
  assumes "c \<notin> set a"
  shows "indexOf (a @ c # rest) [c] = int (length a)"
proof -
  let ?s = "a @ c # rest"
  have k: "length a < Suc (length ?s)" by simp
  have "filter (occurs_at ?s [c]) [0 ..< length a] = []"
    using assms by (auto simp: filter_empty_conv occurs_at_single nth_append)
  moreover have "occurs_at ?s [c] (length a)" by (simp add: occurs_at_single)
  ultimately have "filter (occurs_at ?s [c]) [0 ..< Suc (length ?s)]
      = length a # filter (occurs_at ?s [c]) [Suc (length a) ..< Suc (length ?s)]"
    by (simp only: upt_split [OF k] filter_append filter.simps if_True append_Nil)
  then show ?thesis by (simp add: indexOf_def indexOf_from_def)
qed

lemma lastIndexOf_last:
  assumes "c \<notin> set z"
  shows "lastIndexOf (pre @ c # z) [c] = int (length pre)"
proof -
  let ?s = "pre @ c # z"
  have k: "length pre < Suc (length ?s)" by simp
  have "filter (occurs_at ?s [c]) [Suc (length pre) ..< Suc (length ?s)] = []"
    using assms by (auto simp: filter_empty_conv occurs_at_single nth_append nth_Cons split: nat.splits)
  moreover have "occurs_at ?s [c] (length pre)" by (simp add: occurs_at_single)
  ultimately have "filter (occurs_at ?s [c]) [0 ..< Suc (length ?s)]
      = filter (occurs_at ?s [c]) [0 ..< length pre] @ [length pre]"
    by (simp only: upt_split [OF k] filter_append filter.simps if_True)
  then show ?thesis by (simp add: lastIndexOf_def)
qed

lemma slice_parts:
  "slice (p @ c # r) 0 (int (length p)) = p"
  "slice_from (p @ c # r) (int (length p) + 1) = r"
  by (simp_all add: slice_def slice_from_def slice_index_def nat_add_distrib)

lemma throw_is_failure: "throw_RuleLookupError c m \<noteq> Inr x"
  by (simp add: throw_RuleLookupError_def split: sum.splits)

lemmas example_realm_defs =
  get_property_def example_realm_def object_prototype_methods_def object_prototype_def

lemma throw_recognised_kind:
  "throw_RuleLookupError noBuiltIn m = Inl TypeError"
  "throw_RuleLookupError notInSpecifiedPlugin m = Inl TypeError"
  "throw_RuleLookupError notInAnyPlugin m = Inl TypeError"
  by (simp_all add: throw_RuleLookupError_def new_RuleLookupError_def codes_def noBuiltIn_def
      notInSpecifiedPlugin_def notInAnyPlugin_def)

section \<open>The lookup error\<close>

text \<open>
  Claim C5. Constructing a \<open>RuleLookupError\<close> should raise a TypeError exactly when the
  code is not one of the three kinds \<open>noBuiltIn\<close>, \<open>notInSpecifiedPlugin\<close>,
  \<open>notInAnyPlugin\<close>, and with one of them give an instance whose \<open>code\<close> is that kind and
  cannot be changed. The constructor does the opposite: it raises the TypeError exactly
  when the code is one of the three kinds, and gives an instance for every other value;
  the \<open>code\<close> of an instance is the value given and an assignment leaves it as it is.
\<close>

theorem new_RuleLookupError_inverted:
  "new_RuleLookupError c msg =
     (if c \<in> {noBuiltIn, notInSpecifiedPlugin, notInAnyPlugin} then Inl TypeError
      else Inr \<lparr>code = c, code_writable = False, message = msg\<rparr>)
   \<and> assign_code \<lparr>code = c, code_writable = False, message = msg\<rparr> v
       = \<lparr>code = c, code_writable = False, message = msg\<rparr>"
  by (cases c) (auto simp: new_RuleLookupError_def assign_code_def codes_def noBuiltIn_def
      notInSpecifiedPlugin_def notInAnyPlugin_def)

section \<open>Resolving a rule id\<close>

text \<open>
  Claim C7. For a rule id \<open>r\<close> with no slash, \<open>resolveRuleId(r, cfg)\<close> is claimed to
  return \<open>{ pluginName: "@", ruleName: r }\<close> exactly when \<open>cfg.plugins["@"].rules[r]\<close>
  exists, and to fail with a \<open>RuleLookupError\<close> of the kind \<open>noBuiltIn\<close> otherwise. The
  function returns that object exactly when \<open>r\<close> is not empty, \<open>cfg.plugins\<close> is a
  non-null object and \<open>plugins["@"] && plugins["@"].rules && plugins["@"].rules[r]\<close> is
  truthy. In every other case it raises a plain TypeError, the one the constructor of
  \<open>RuleLookupError\<close> raises when it is given one of its three kinds: no lookup of such
  an id fails with a \<open>RuleLookupError\<close> of the kind \<open>noBuiltIn\<close>.
\<close>

theorem resolveRuleId_bare:
  assumes "CHR ''/'' \<notin> set r"
  shows "resolveRuleId realm r cfg =
           (if r \<noteq> [] \<and> truthy (plugins cfg) \<and> typeof (plugins cfg) = ''object''
               \<and> object_exists realm (plugins cfg) ''@'' ''rules'' r
            then Inr \<lparr>pluginName = ''@'', ruleName = r\<rparr>
            else Inl TypeError)
       \<and> \<not> fails_with_code noBuiltIn (resolveRuleId realm r cfg)"
proof -
  have i: "indexOf r ''/'' = - 1"
    by (rule indexOf_absent [OF assms])
  have "resolveRuleId realm r cfg =
           (if r \<noteq> [] \<and> truthy (plugins cfg) \<and> typeof (plugins cfg) = ''object''
               \<and> object_exists realm (plugins cfg) ''@'' ''rules'' r
            then Inr \<lparr>pluginName = ''@'', ruleName = r\<rparr>
            else Inl TypeError)"
    by (simp add: resolveRuleId_def i throw_recognised_kind)
  then show ?thesis by simp
qed

text \<open>
  In \<open>{ plugins: { "@": { rules: { foo: {} } }, a: { rules: { "1": {} } } } }\<close> the id
  \<open>"foo"\<close> is resolved, and so is the id \<open>"toString"\<close>, a method the object \<open>rules\<close>
  inherits. The lookup of \<open>"bar"\<close> raises the TypeError, and so does the lookup of
  \<open>"foo"\<close> in a configuration with no plugins.
\<close>

theorem resolveRuleId_bare_witness:
  "CHR ''/'' \<notin> set ''foo''
   \<and> resolveRuleId example_realm ''foo'' small_config
       = Inr \<lparr>pluginName = ''@'', ruleName = ''foo''\<rparr>
   \<and> CHR ''/'' \<notin> set ''toString''
   \<and> resolveRuleId example_realm ''toString'' small_config
       = Inr \<lparr>pluginName = ''@'', ruleName = ''toString''\<rparr>
   \<and> CHR ''/'' \<notin> set ''bar''
   \<and> resolveRuleId example_realm ''bar'' small_config = Inl TypeError
   \<and> \<not> fails_with_code noBuiltIn (resolveRuleId example_realm ''bar'' small_config)
   \<and> resolveRuleId example_realm ''foo'' missing_plugins = Inl TypeError
   \<and> \<not> fails_with_code noBuiltIn (resolveRuleId example_realm ''foo'' missing_plugins)"
  using resolveRuleId_bare [where r = "''foo''" and cfg = small_config and realm = example_realm]
    resolveRuleId_bare [where r = "''toString''" and cfg = small_config and realm = example_realm]
    resolveRuleId_bare [where r = "''bar''" and cfg = small_config and realm = example_realm]
    resolveRuleId_bare [where r = "''foo''" and cfg = missing_plugins and realm = example_realm]
  by (simp add: small_config_def missing_plugins_def object_exists_def js_and_def
      get_property_def example_realm_def object_prototype_methods_def object_prototype_def)

text \<open>
  Claim C8. For non-empty \<open>pluginName\<close> and \<open>ruleName\<close> with no slash,
  \<open>resolveRuleId(pluginName + "/" + ruleName, cfg)\<close> is claimed to return \<open>{ pluginName,
  ruleName }\<close> exactly when \<open>cfg.plugins[pluginName].rules[ruleName]\<close> exists, and to fail
  with a \<open>RuleLookupError\<close> of the kind \<open>notInSpecifiedPlugin\<close> otherwise. The function
  returns that object exactly when \<open>cfg.plugins\<close> is a non-null object and
  \<open>plugins[pluginName] && plugins[pluginName].rules && plugins[pluginName].rules[ruleName]\<close>
  is truthy. In every other case it raises a plain TypeError, the one the constructor of
  \<open>RuleLookupError\<close> raises when it is given one of its three kinds: no lookup of such
  an id fails with a \<open>RuleLookupError\<close> of the kind \<open>notInSpecifiedPlugin\<close>.
\<close>

theorem resolveRuleId_plugin:
  assumes "CHR ''/'' \<notin> set p" and "CHR ''/'' \<notin> set n"
  shows "resolveRuleId realm (p @ ''/'' @ n) cfg =
           (if truthy (plugins cfg) \<and> typeof (plugins cfg) = ''object''
               \<and> object_exists realm (plugins cfg) p ''rules'' n
            then Inr \<lparr>pluginName = p, ruleName = n\<rparr>
            else Inl TypeError)
       \<and> \<not> fails_with_code notInSpecifiedPlugin (resolveRuleId realm (p @ ''/'' @ n) cfg)"
proof -
  have i: "indexOf (p @ CHR ''/'' # n) ''/'' = int (length p)"
    by (rule indexOf_first [OF assms(1)])
  have l: "lastIndexOf (p @ CHR ''/'' # n) ''/'' = int (length p)"
    by (rule lastIndexOf_last [OF assms(2)])
  have "resolveRuleId realm (p @ CHR ''/'' # n) cfg =
           (if truthy (plugins cfg) \<and> typeof (plugins cfg) = ''object''
               \<and> object_exists realm (plugins cfg) p ''rules'' n
            then Inr \<lparr>pluginName = p, ruleName = n\<rparr>
            else Inl TypeError)"
    by (simp add: resolveRuleId_def i l slice_parts Let_def throw_recognised_kind)
  then show ?thesis by simp
qed

text \<open>
  In the same configuration the id \<open>"a/1"\<close> is resolved, and so is \<open>"a/hasOwnProperty"\<close>.
  The lookup of \<open>"a/9"\<close> raises the TypeError, and so does the lookup of \<open>"a/1"\<close> in a
  configuration with no plugins.
\<close>

theorem resolveRuleId_plugin_witness:
  "CHR ''/'' \<notin> set ''a'' \<and> CHR ''/'' \<notin> set ''1''
   \<and> resolveRuleId example_realm ''a/1'' small_config
       = Inr \<lparr>pluginName = ''a'', ruleName = ''1''\<rparr>
   \<and> CHR ''/'' \<notin> set ''hasOwnProperty''
   \<and> resolveRuleId example_realm ''a/hasOwnProperty'' small_config
       = Inr \<lparr>pluginName = ''a'', ruleName = ''hasOwnProperty''\<rparr>
   \<and> CHR ''/'' \<notin> set ''9''
   \<and> resolveRuleId example_realm ''a/9'' small_config = Inl TypeError
   \<and> \<not> fails_with_code notInSpecifiedPlugin (resolveRuleId example_realm ''a/9'' small_config)
   \<and> resolveRuleId example_realm ''a/1'' missing_plugins = Inl TypeError
   \<and> \<not> fails_with_code notInSpecifiedPlugin
         (resolveRuleId example_realm ''a/1'' missing_plugins)"
  using
    resolveRuleId_plugin [where p = "''a''" and n = "''1''" and cfg = small_config
      and realm = example_realm]
    resolveRuleId_plugin [where p = "''a''" and n = "''hasOwnProperty''" and cfg = small_config
      and realm = example_realm]
    resolveRuleId_plugin [where p = "''a''" and n = "''9''" and cfg = small_config
      and realm = example_realm]
    resolveRuleId_plugin [where p = "''a''" and n = "''1''" and cfg = missing_plugins
      and realm = example_realm]
  by (simp add: small_config_def missing_plugins_def object_exists_def js_and_def
      get_property_def example_realm_def object_prototype_methods_def object_prototype_def)

text \<open>
  Claim C1. For a rule id with two slashes or more and a configuration whose \<open>plugins\<close>
  is a non-null object, \<open>resolveRuleId\<close> is claimed to return the first split of the id,
  in the order of the split points, whose plugin has the rule, and to fail with the kind
  \<open>notInAnyPlugin\<close> when there is none. Every such id is \<open>a/m/z\<close> with no slash in \<open>a\<close>
  and none in \<open>z\<close>; on each of them the function raises a ReferenceError, whatever the
  plugins hold.
\<close>

theorem resolveRuleId_multiple_slashes:
  assumes "CHR ''/'' \<notin> set a" and "CHR ''/'' \<notin> set z"
    and "truthy (plugins cfg)" and "typeof (plugins cfg) = ''object''"
  shows "resolveRuleId realm (a @ ''/'' @ m @ ''/'' @ z) cfg = Inl (ReferenceError ''enumerateRuleIdMatches'')"
proof -
  have i: "indexOf (a @ CHR ''/'' # m @ CHR ''/'' # z) ''/'' = int (length a)"
    by (rule indexOf_first [OF assms(1)])
  have "lastIndexOf ((a @ CHR ''/'' # m) @ CHR ''/'' # z) ''/'' = int (length (a @ CHR ''/'' # m))"
    by (rule lastIndexOf_last [OF assms(2)])
  then have l: "lastIndexOf (a @ CHR ''/'' # m @ CHR ''/'' # z) ''/'' = int (length a) + 1 + int (length m)"
    by simp
  show ?thesis
    using assms(3,4) by (simp add: resolveRuleId_def i l Let_def)
qed

text \<open>
  On the ambiguity example the generator of the module, \<open>enumerateObjectIdMatches\<close>,
  yields the two matches with the shorter plugin name first; \<open>resolveRuleId\<close> does not
  reach it.
\<close>

theorem resolveRuleId_multiple_slashes_witness:
  "CHR ''/'' \<notin> set ''a'' \<and> CHR ''/'' \<notin> set ''4'' \<and> truthy (plugins ambiguous_config)
   \<and> typeof (plugins ambiguous_config) = ''object''
   \<and> resolveRuleId example_realm ''a/3/4'' ambiguous_config = Inl (ReferenceError ''enumerateRuleIdMatches'')
   \<and> enumerateObjectIdMatches example_realm (plugins ambiguous_config) ''rules'' ''a/3/4''
       = Inr [(''a'', ''3/4''), (''a/3'', ''4'')]"
proof -
  have "enumerateObjectIdMatches example_realm (plugins ambiguous_config) ''rules'' ''a/3/4''
          = Inr [(''a'', ''3/4''), (''a/3'', ''4'')]"
    by code_simp
  then show ?thesis
    using resolveRuleId_multiple_slashes [where a = "''a''" and z = "''4''"
        and cfg = ambiguous_config and m = "''3''" and realm = example_realm]
    by (simp add: ambiguous_config_def)
qed

section \<open>Schemas\<close>

text \<open>
  Claim C4. For every schema whose compilation by the engine raises,
  \<open>compileJsonSchema(schema)\<close> returns a validator that reports no error, an empty array,
  on every value.
\<close>

theorem compileJsonSchema_malformed:
  assumes "ajv schema = None"
  shows "compileJsonSchema ajv schema object = []"
  using assms by (simp add: compileJsonSchema_def alwaysSucceedsCompiledSchema_def emptyArray_def)

text \<open>
  The reference engine refuses the schema \<open>{ type: "strnig" }\<close>; the validator accepts
  \<open>undefined\<close>, \<open>null\<close> and an object.
\<close>

theorem compileJsonSchema_malformed_witness:
  "reference_engine (JObj 1 [(''type'', JStr ''strnig'')]) = None
   \<and> compileJsonSchema reference_engine (JObj 1 [(''type'', JStr ''strnig'')]) JUndefined = []
   \<and> compileJsonSchema reference_engine (JObj 1 [(''type'', JStr ''strnig'')]) JNull = []
   \<and> compileJsonSchema reference_engine (JObj 1 [(''type'', JStr ''strnig'')]) (JObj 2 [(''a'', JNum 1)]) = []"
proof -
  have n: "reference_engine (JObj 1 [(''type'', JStr ''strnig'')]) = None"
    by (simp add: reference_engine_def)
  show ?thesis
    using n
      compileJsonSchema_malformed [of reference_engine "JObj 1 [(''type'', JStr ''strnig'')]" JUndefined]
      compileJsonSchema_malformed [of reference_engine "JObj 1 [(''type'', JStr ''strnig'')]" JNull]
      compileJsonSchema_malformed [of reference_engine "JObj 1 [(''type'', JStr ''strnig'')]"
        "JObj 2 [(''a'', JNum 1)]"]
    by simp
qed

text \<open>
  Claim C3. For a rule whose schema is a single object, \<open>getRuleOptionsSchema\<close> should
  return \<open>null\<close> exactly when the top-level type constraint of the schema would accept a
  value that is no array, and the schema unchanged otherwise. The function tests
  \<open>validateJsonSchemaOnlyAcceptsArraysAtTopLevel(schema)\<close> without a negation: it
  returns \<open>null\<close> exactly when that check says the schema accepts arrays only, and the
  schema when the check fails.
\<close>

theorem getRuleOptionsSchema_object:
  assumes "truthy rule" and "declared_schema realm rule = JObj a fs"
  shows "getRuleOptionsSchema realm ajv rule h =
           (if validateJsonSchemaOnlyAcceptsArraysAtTopLevel ajv (JObj a fs) then (JNull, h)
            else (JObj a fs, h))"
  using assms by (simp add: getRuleOptionsSchema_def)

text \<open>
  With the reference engine: the schema \<open>{ type: "array" }\<close> passes the check, rejects an
  object, and is dropped; the schema \<open>{ type: "object" }\<close> fails the check, accepts an
  object, and is returned.
\<close>

theorem getRuleOptionsSchema_object_witness:
  "truthy array_only_rule
   \<and> declared_schema example_realm array_only_rule = JObj 11 [(''type'', JStr ''array'')]
   \<and> validateJsonSchemaOnlyAcceptsArraysAtTopLevel reference_engine (JObj 11 [(''type'', JStr ''array'')])
   \<and> schema_errors (JObj 11 [(''type'', JStr ''array'')]) [] (JObj 0 []) \<noteq> []
   \<and> getRuleOptionsSchema example_realm reference_engine array_only_rule 20 = (JNull, 20)
   \<and> truthy object_schema_rule
   \<and> declared_schema example_realm object_schema_rule = JObj 14 [(''type'', JStr ''object'')]
   \<and> \<not> validateJsonSchemaOnlyAcceptsArraysAtTopLevel reference_engine (JObj 14 [(''type'', JStr ''object'')])
   \<and> schema_errors (JObj 14 [(''type'', JStr ''object'')]) [] (JObj 0 []) = []
   \<and> getRuleOptionsSchema example_realm reference_engine object_schema_rule 20
       = (JObj 14 [(''type'', JStr ''object'')], 20)"
proof -
  have d: "declared_schema example_realm array_only_rule = JObj 11 [(''type'', JStr ''array'')]"
    "declared_schema example_realm object_schema_rule = JObj 14 [(''type'', JStr ''object'')]"
    by (simp_all add: declared_schema_def array_only_rule_def object_schema_rule_def js_or_def
        js_and_def example_realm_defs)
  have t: "truthy array_only_rule" "truthy object_schema_rule"
    by (simp_all add: array_only_rule_def object_schema_rule_def)
  have v: "validateJsonSchemaOnlyAcceptsArraysAtTopLevel reference_engine (JObj 11 [(''type'', JStr ''array'')])"
    "\<not> validateJsonSchemaOnlyAcceptsArraysAtTopLevel reference_engine (JObj 14 [(''type'', JStr ''object'')])"
    by (simp_all add: validateJsonSchemaOnlyAcceptsArraysAtTopLevel_def reference_engine_def
        schema_error_def)
  show ?thesis
    using d t v
      getRuleOptionsSchema_object [OF t(1) d(1), where ajv = reference_engine and h = 20]
      getRuleOptionsSchema_object [OF t(2) d(2), where ajv = reference_engine and h = 20]
    by (simp add: schema_error_def)
qed








section \<open>Validation\<close>

text \<open>The lookup and the loop of \<open>validate\<close> read the plugins of a configuration only.\<close>

lemma resolveRule_rules_irrelevant:
  "resolveRule realm rr ruleId (cfg\<lparr>rules := x\<rparr>) h = resolveRule realm rr ruleId cfg h"
proof -
  have p: "plugins (cfg\<lparr>rules := x\<rparr>) = plugins cfg" by simp
  have r: "resolveRuleId realm ruleId (cfg\<lparr>rules := x\<rparr>) = resolveRuleId realm ruleId cfg"
    unfolding resolveRuleId_def p by (rule refl)
  have g: "getRuleFromConfig realm ruleId (cfg\<lparr>rules := x\<rparr>) h = getRuleFromConfig realm ruleId cfg h"
    unfolding getRuleFromConfig_def p r by (rule refl)
  have s: "searchForPartialRuleNameMatches realm ruleId (cfg\<lparr>rules := x\<rparr>)
             = searchForPartialRuleNameMatches realm ruleId cfg"
    unfolding searchForPartialRuleNameMatches_def p by (rule refl)
  show ?thesis unfolding resolveRule_def g s by (rule refl)
qed

lemma validate_entry_rules_irrelevant:
  "validate_entry realm ajv rr (cfg\<lparr>rules := x\<rparr>) st entry = validate_entry realm ajv rr cfg st entry"
  by (cases entry) (simp add: validate_entry_def resolveRule_rules_irrelevant)

lemma validate_entries_rules_irrelevant:
  "validate_entries realm ajv rr (cfg\<lparr>rules := x\<rparr>) st entries = validate_entries realm ajv rr cfg st entries"
  by (induction entries arbitrary: st)
    (simp_all add: validate_entry_rules_irrelevant split: prod.splits option.splits)

lemma validate_entry_disabled:
  "element ruleOptions 0 = JNum 0 \<Longrightarrow> validate_entry realm ajv rr cfg st (ruleId, ruleOptions) = (None, st)"
  by (simp add: validate_entry_def)

lemma validate_entries_skip:
  assumes "element ruleOptions 0 = JNum 0"
  shows "validate_entries realm ajv rr cfg st (before @ (ruleId, ruleOptions) # after)
           = validate_entries realm ajv rr cfg st (before @ after)"
proof (induction before arbitrary: st)
  case Nil
  show ?case by (simp add: validate_entry_disabled [OF assms])
next
  case (Cons e es)
  show ?case
  proof (cases "validate_entry realm ajv rr cfg st e")
    case (Pair err st1)
    then show ?thesis using Cons.IH [of st1] by (cases err) simp_all
  qed
qed

text \<open>
  Claim C9. For every configuration and every entry \<open>(ruleId, options)\<close> of its rules
  whose \<open>options[0]\<close> is \<open>0\<close>, \<open>validate\<close> resolves no rule, reads no schema, validates
  no options and raises nothing for that entry, whatever the rule id names: the body of
  the loop ends in the state it started in (the validators, the heap and the log of calls
  are unchanged), and \<open>validate\<close> does on the configuration what it does on the
  configuration without the entry.
\<close>

theorem validate_skips_disabled:
  assumes "element ruleOptions 0 = JNum 0"
  shows "validate_entry realm ajv rr cfg st (ruleId, ruleOptions) = (None, st)
       \<and> (rules cfg = Some (before @ (ruleId, ruleOptions) # after) \<longrightarrow>
            validate realm ajv rr cfg st = validate realm ajv rr (cfg\<lparr>rules := Some (before @ after)\<rparr>) st)"
  using assms
  by (simp add: validate_entry_disabled validate_def validate_entries_skip
      validate_entries_rules_irrelevant)

text \<open>
  \<open>{ rules: { "some-rule": [0, "anything"] } }\<close> with no plugin that has the rule: the
  lookup of \<open>"some-rule"\<close> would raise, and \<open>validate\<close> returns in the state of a new
  validator.
\<close>

theorem validate_skips_disabled_witness:
  "element [JNum 0, JStr ''anything''] 0 = JNum 0
   \<and> rules disabled_config = Some ([] @ (''some-rule'', [JNum 0, JStr ''anything'']) # [])
   \<and> resolveRuleId example_realm ''some-rule'' disabled_config
       = throw_RuleLookupError noBuiltIn
           (''There is no built-in rule with the name '' @ quoted ''some-rule'' @ ''.'')
   \<and> validate example_realm reference_engine no_replacements disabled_config (new_RuleValidator 100)
       = (None, new_RuleValidator 100)"
proof -
  have r: "resolveRuleId example_realm ''some-rule'' disabled_config
       = throw_RuleLookupError noBuiltIn
           (''There is no built-in rule with the name '' @ quoted ''some-rule'' @ ''.'')"
    by code_simp
  show ?thesis
    using r validate_skips_disabled [of "[JNum 0, JStr ''anything'']" example_realm reference_engine
        no_replacements disabled_config "new_RuleValidator 100" "''some-rule''" "[]" "[]"]
    by (simp add: element_def disabled_config_def validate_def)
qed

section \<open>The cache of compiled validators\<close>





lemma cache_sound_heap: "cache_sound a (st\<lparr>next_address := h\<rparr>) = cache_sound a st"
  by (simp add: cache_sound_def)








lemma resolveRule_found:
  "getRuleFromConfig realm ruleId cfg h = Inr found \<Longrightarrow> resolveRule realm rr ruleId cfg h = Inr found"
  by (simp add: resolveRule_def)











section \<open>Rules that are functions\<close>

text \<open>
  Every key of the cache lies below the next free address: the objects a lookup returns
  are objects of the configuration or new ones.
\<close>

lemma addresses_map_of:
  "map_of fs k = Some v \<Longrightarrow> addresses v \<subseteq> addresses_fields fs"
  by (induction fs) (auto split: if_splits)

lemma addresses_nth: "i < length xs \<Longrightarrow> addresses (xs ! i) \<subseteq> addresses_list xs"
  by (induction xs arbitrary: i) (auto simp: nth_Cons split: nat.splits)

lemma addresses_own_property:
  "own_property v k = Some x \<Longrightarrow> addresses x \<subseteq> addresses v"
proof (cases v)
  case (JObj a fs)
  assume "own_property v k = Some x"
  then show ?thesis using JObj addresses_map_of [of fs k x] by auto
next
  case (JFun a fs)
  assume "own_property v k = Some x"
  then show ?thesis using JFun addresses_map_of [of fs k x] by auto
next
  case (JArr xs)
  assume o: "own_property v k = Some x"
  show ?thesis
  proof (cases "filter (\<lambda>i. decimal i = k) [0 ..< length xs]")
    case Nil
    then show ?thesis using JArr o by (auto split: if_splits)
  next
    case (Cons i rest)
    have "i \<in> set (filter (\<lambda>i. decimal i = k) [0 ..< length xs])"
      unfolding Cons by (rule list.set_intros(1))
    then have "i < length xs" by simp
    then show ?thesis using JArr Cons o addresses_nth [of i xs] by (auto split: if_splits)
  qed
next
  case (JStr str)
  assume "own_property v k = Some x"
  then show ?thesis using JStr by (auto split: if_splits list.splits)
qed simp_all

lemma addresses_get_property:
  "addresses (get_property realm v k) \<subseteq> addresses v \<union> addresses (realm v k)"
proof (cases "own_property v k")
  case None
  then show ?thesis by (simp add: get_property_def)
next
  case (Some x)
  then show ?thesis using addresses_own_property [OF Some] by (auto simp: get_property_def)
qed

lemma get_property_allocated:
  assumes "realm_allocated realm h" and "\<forall>a \<in> addresses v. a < h"
  shows "\<forall>a \<in> addresses (get_property realm v k). a < h"
proof
  fix a
  assume "a \<in> addresses (get_property realm v k)"
  then have "a \<in> addresses v \<or> a \<in> addresses (realm v k)"
    using addresses_get_property [of realm v k] by blast
  then show "a < h"
    using assms by (auto simp: realm_allocated_def)
qed

lemma throw_is_Inl: "\<exists>e. throw_RuleLookupError c m = Inl e"
  by (simp add: throw_RuleLookupError_def split: sum.splits)

lemma resolveRule_Inr:
  assumes "resolveRule realm rr ruleId cfg h = Inr found"
  shows "getRuleFromConfig realm ruleId cfg h = Inr found"
proof (cases "getRuleFromConfig realm ruleId cfg h")
  case (Inr x)
  with assms show ?thesis by (simp add: resolveRule_def)
next
  case (Inl e)
  with assms show ?thesis
    by (auto simp: resolveRule_def Let_def throw_is_failure
        split: js_error.splits option.splits sum.splits if_splits)
qed

lemma getRuleFromConfig_allocated:
  assumes "allocated cfg h" and "realm_allocated realm h"
    and "getRuleFromConfig realm ruleId cfg h = Inr (rule, h')"
  shows "h \<le> h' \<and> (\<forall>a. weak_key rule = Some a \<longrightarrow> a < h')"
proof (cases "resolveRuleId realm ruleId cfg")
  case (Inl e)
  with assms(3) show ?thesis by (simp add: getRuleFromConfig_def)
next
  case (Inr r)
  let ?rule = "get_property realm (get_property realm (get_property realm (plugins cfg) (pluginName r)) ''rules'') (ruleName r)"
  have "\<forall>a \<in> addresses (plugins cfg). a < h"
    using assms(1) by (simp add: allocated_def)
  then have sub: "\<forall>a \<in> addresses ?rule. a < h"
    by (intro get_property_allocated [OF assms(2)])
  show ?thesis
  proof (cases "typeof ?rule = ''function''")
    case True
    with assms(3) Inr show ?thesis by (auto simp: getRuleFromConfig_def Let_def)
  next
    case False
    with assms(3) Inr have e: "rule = ?rule" "h' = h" by (auto simp: getRuleFromConfig_def Let_def)
    have "a < h" if "weak_key rule = Some a" for a
    proof -
      from that obtain fs where "rule = JObj a fs" by (cases rule) simp_all
      then have "a \<in> addresses ?rule" using e by simp
      with sub show ?thesis by blast
    qed
    with e show ?thesis by simp
  qed
qed

lemma getRuleOptionsSchema_lookup_heap: "h \<le> snd (getRuleOptionsSchema_lookup realm rule h)"
  by (simp add: getRuleOptionsSchema_lookup_def Let_def split: jsval.splits)

lemma precompile_allocated:
  assumes "cache_allocated st" and "\<And>a. weak_key rule = Some a \<Longrightarrow> a < next_address st"
  shows "cache_allocated (snd (precompile realm ajv rule st))
       \<and> next_address st \<le> next_address (snd (precompile realm ajv rule st))"
proof -
  obtain schema h where g: "getRuleOptionsSchema_lookup realm rule (next_address st) = (schema, h)"
    by (cases "getRuleOptionsSchema_lookup realm rule (next_address st)")
  have h: "next_address st \<le> h"
    using getRuleOptionsSchema_lookup_heap [of "next_address st" realm rule] g by simp
  show ?thesis
    using assms g h
    by (auto simp: precompile_def cache_allocated_def weakmap_set_def Let_def
        split: option.splits if_splits)
qed


lemma allocated_mono: "allocated cfg h \<Longrightarrow> h \<le> h' \<Longrightarrow> allocated cfg h'"
  by (auto simp: allocated_def)

lemma realm_allocated_mono: "realm_allocated realm h \<Longrightarrow> h \<le> h' \<Longrightarrow> realm_allocated realm h'"
  unfolding realm_allocated_def by (meson less_le_trans)

lemma validate_entry_allocated:
  assumes "cache_allocated st" and "allocated cfg (next_address st)"
    and "realm_allocated realm (next_address st)"
  shows "cache_allocated (snd (validate_entry realm ajv rr cfg st entry))
       \<and> next_address st \<le> next_address (snd (validate_entry realm ajv rr cfg st entry))"
proof (cases entry)
  case (Pair ruleId ruleOptions)
  show ?thesis
  proof (cases "ruleId = ''__proto__'' \<or> element ruleOptions 0 = JNum 0")
    case True
    then show ?thesis using assms Pair by (auto simp: validate_entry_def)
  next
    case False
    show ?thesis
    proof (cases "resolveRule realm rr ruleId cfg (next_address st)")
      case (Inl e)
      with False Pair assms(1) show ?thesis
        by (simp add: validate_entry_def cache_allocated_def)
    next
      case (Inr found)
      obtain rule h where found: "found = (rule, h)" by (cases found)
      let ?st0 = "st\<lparr>next_address := h, calls := calls st @ [ResolveRule ruleId]\<rparr>"
      have g: "next_address st \<le> h \<and> (\<forall>a. weak_key rule = Some a \<longrightarrow> a < h)"
        using getRuleFromConfig_allocated [OF assms(2,3)] resolveRule_Inr [OF Inr] found by simp
      have a0: "cache_allocated ?st0"
        using assms(1) g by (auto simp: cache_allocated_def)
      obtain err st1 where p: "precompile realm ajv rule ?st0 = (err, st1)"
        by (cases "precompile realm ajv rule ?st0")
      have s1: "cache_allocated st1 \<and> h \<le> next_address st1"
        using precompile_allocated [OF a0, where rule = rule and ajv = ajv and realm = realm] g p
        by simp
      then have s2: "cache_allocated (st1\<lparr>calls := cs\<rparr>)" for cs
        by (simp add: cache_allocated_def)
      show ?thesis
        using False Pair Inr found p s1 s2 g
        by (auto simp: validate_entry_def Let_def split: option.splits)
    qed
  qed
qed

lemma validate_entries_allocated:
  "cache_allocated st \<Longrightarrow> allocated cfg (next_address st) \<Longrightarrow>
     realm_allocated realm (next_address st) \<Longrightarrow>
     cache_allocated (snd (validate_entries realm ajv rr cfg st entries))
     \<and> next_address st \<le> next_address (snd (validate_entries realm ajv rr cfg st entries))"
proof (induction entries arbitrary: st)
  case Nil
  then show ?case by simp
next
  case (Cons e es)
  obtain err st1 where v: "validate_entry realm ajv rr cfg st e = (err, st1)"
    by (cases "validate_entry realm ajv rr cfg st e")
  have s1: "cache_allocated st1 \<and> next_address st \<le> next_address st1"
    using validate_entry_allocated [OF Cons.prems, where ajv = ajv and rr = rr and entry = e] v
    by simp
  then have "allocated cfg (next_address st1)" "realm_allocated realm (next_address st1)"
    using Cons.prems(2,3) allocated_mono realm_allocated_mono by blast+
  with s1 Cons.IH [of st1] v show ?case by (cases err) auto
qed

lemma validate_allocated:
  "cache_allocated st \<Longrightarrow> allocated cfg (next_address st) \<Longrightarrow>
     realm_allocated realm (next_address st) \<Longrightarrow>
     cache_allocated (snd (validate realm ajv rr cfg st))
     \<and> next_address st \<le> next_address (snd (validate realm ajv rr cfg st))"
  by (simp add: validate_def validate_entries_allocated split: option.splits)

lemma validate_all_allocated:
  "cache_allocated st \<Longrightarrow> \<forall>c \<in> set cfgs. allocated c (next_address st) \<Longrightarrow>
     realm_allocated realm (next_address st) \<Longrightarrow>
     cache_allocated (validate_all realm ajv rr st cfgs)"
proof (induction cfgs arbitrary: st)
  case Nil
  then show ?case by simp
next
  case (Cons c cs)
  let ?st1 = "snd (validate realm ajv rr c st)"
  have s1: "cache_allocated ?st1 \<and> next_address st \<le> next_address ?st1"
    using validate_allocated [where st = st and cfg = c and ajv = ajv and rr = rr and realm = realm]
      Cons.prems
    by simp
  then have "\<forall>c \<in> set cs. allocated c (next_address ?st1)"
    "realm_allocated realm (next_address ?st1)"
    using Cons.prems(2,3) allocated_mono realm_allocated_mono by auto
  with s1 Cons.IH [of ?st1] show ?case by simp
qed

lemma new_RuleValidator_allocated: "cache_allocated (new_RuleValidator h)"
  by (simp add: cache_allocated_def new_RuleValidator_def)

text \<open>The objects of the realm of the examples lie below the address 100.\<close>

lemma example_realm_allocated: "realm_allocated example_realm 100"
proof -
  have m: "addresses x = {}" if "map_of object_prototype_methods k = Some x" for k x
    using addresses_map_of [OF that] by (simp add: object_prototype_methods_def)
  have n: "\<forall>a \<in> addresses (nearer_prototype v). a < 100" for v
    by (cases v) (simp_all add: object_prototype_def object_prototype_methods_def)
  show ?thesis
    unfolding realm_allocated_def example_realm_def
    using m n by (auto split: option.splits)
qed

text \<open>
  Claim C10. When the rule registered for a rule id is a function, \<open>getRuleFromConfig\<close>
  wraps it in a new object \<open>{ create: rule }\<close> on every call, so two lookups return
  distinct objects, and the cache of a validator never has an entry for the object a
  lookup returns. The claim goes on: the options schema of such a rule is looked up and
  compiled anew for every entry. The lookup is made anew, but the new object has no
  \<open>schema\<close> and no \<open>meta\<close>: \<open>getRuleOptionsSchema\<close> returns \<open>null\<close> for it, so nothing
  is compiled, nothing is stored, no options are validated and nothing is raised. This
  holds in every state a new validator reaches through calls of \<open>validate\<close> on
  configurations whose objects exist when the validator is created, in a realm whose
  built-in objects exist by then too and in which a plain object inherits no \<open>schema\<close>
  and no \<open>meta\<close>, as \<open>Object.prototype\<close> declares neither.
\<close>

theorem function_rule_never_cached:
  assumes "\<forall>c \<in> set cfgs. allocated c h0"
    and "st = validate_all realm ajv rr (new_RuleValidator h0) cfgs"
    and "resolveRuleId realm ruleId cfg = Inr r"
    and "get_property realm
           (get_property realm (get_property realm (plugins cfg) (pluginName r)) ''rules'')
           (ruleName r) = JFun f fs"
    and "ruleId \<noteq> ''__proto__''" and "element ruleOptions 0 \<noteq> JNum 0"
    and "realm_allocated realm h0"
    and "\<forall>a ps. realm (JObj a ps) ''schema'' = JUndefined
                \<and> realm (JObj a ps) ''meta'' = JUndefined"
  shows "getRuleFromConfig realm ruleId cfg h = Inr (JObj h [(''create'', JFun f fs)], Suc h)
       \<and> getRuleFromConfig realm ruleId cfg (Suc h)
           = Inr (JObj (Suc h) [(''create'', JFun f fs)], Suc (Suc h))
       \<and> JObj h [(''create'', JFun f fs)] \<noteq> JObj (Suc h) [(''create'', JFun f fs)]
       \<and> \<not> weakmap_has (validators st) (JObj (next_address st) [(''create'', JFun f fs)])
       \<and> getRuleOptionsSchema_lookup realm (JObj h [(''create'', JFun f fs)]) h' = (JNull, h')
       \<and> validate_entry realm ajv rr cfg st (ruleId, ruleOptions)
           = (None, st\<lparr>next_address := Suc (next_address st),
                        calls := calls st @ [ResolveRule ruleId,
                          GetRuleOptionsSchema (JObj (next_address st) [(''create'', JFun f fs)])]\<rparr>)"
proof -
  have g: "getRuleFromConfig realm ruleId cfg k = Inr (JObj k [(''create'', JFun f fs)], Suc k)" for k
    using assms(3,4) by (simp add: getRuleFromConfig_def)
  have "cache_allocated st"
    unfolding assms(2)
    by (rule validate_all_allocated [OF new_RuleValidator_allocated])
      (use assms(1,7) in \<open>simp_all add: new_RuleValidator_def\<close>)
  then have miss: "validators st (next_address st) = None"
    by (auto simp: cache_allocated_def)
  have sch: "getRuleOptionsSchema_lookup realm (JObj k [(''create'', JFun f fs)]) k' = (JNull, k')"
    for k k'
    using assms(8)
    by (simp add: getRuleOptionsSchema_lookup_def declared_schema_def js_or_def js_and_def
        get_property_def)
  have v: "validate_entry realm ajv rr cfg st (ruleId, ruleOptions)
           = (None, st\<lparr>next_address := Suc (next_address st),
                        calls := calls st @ [ResolveRule ruleId,
                          GetRuleOptionsSchema (JObj (next_address st) [(''create'', JFun f fs)])]\<rparr>)"
    using assms(5,6) resolveRule_found [OF g [of "next_address st"], where rr = rr] miss sch
    by (simp add: validate_entry_def precompile_def weakmap_has_def weakmap_get_def)
  show ?thesis using g miss sch v by (simp add: weakmap_has_def)
qed

text \<open>
  The configuration whose rule \<open>"foo"\<close> is a function, validated by a validator that has
  validated it once before.
\<close>

theorem function_rule_never_cached_witness:
  "allocated function_config 100
   \<and> realm_allocated example_realm 100
   \<and> (\<forall>a ps. example_realm (JObj a ps) ''schema'' = JUndefined
                \<and> example_realm (JObj a ps) ''meta'' = JUndefined)
   \<and> resolveRuleId example_realm ''foo'' function_config = Inr \<lparr>pluginName = ''@'', ruleName = ''foo''\<rparr>
   \<and> get_property example_realm (get_property example_realm (get_property example_realm (plugins function_config) ''@'') ''rules'') ''foo''
       = JFun 7 []
   \<and> ''foo'' \<noteq> ''__proto__'' \<and> element [JNum 2, JStr ''x''] 0 \<noteq> JNum 0
   \<and> getRuleFromConfig example_realm ''foo'' function_config 101 = Inr (JObj 101 [(''create'', JFun 7 [])], 102)
   \<and> fst (validate_entry example_realm reference_engine no_replacements function_config
        (validate_all example_realm reference_engine no_replacements (new_RuleValidator 100) [function_config])
        (''foo'', [JNum 2, JStr ''x''])) = None
   \<and> calls (snd (validate_entry example_realm reference_engine no_replacements function_config
        (validate_all example_realm reference_engine no_replacements (new_RuleValidator 100) [function_config])
        (''foo'', [JNum 2, JStr ''x''])))
       = [ResolveRule ''foo'', GetRuleOptionsSchema (JObj 100 [(''create'', JFun 7 [])]),
          ResolveRule ''foo'', GetRuleOptionsSchema (JObj 101 [(''create'', JFun 7 [])])]"
proof -
  let ?st = "validate_all example_realm reference_engine no_replacements (new_RuleValidator 100) [function_config]"
  have a: "\<forall>c \<in> set [function_config]. allocated c 100"
    by (simp add: allocated_def function_config_def)
  have r: "resolveRuleId example_realm ''foo'' function_config = Inr \<lparr>pluginName = ''@'', ruleName = ''foo''\<rparr>"
    by code_simp
  have p: "get_property example_realm (get_property example_realm (get_property example_realm (plugins function_config)
             (pluginName \<lparr>pluginName = ''@'', ruleName = ''foo''\<rparr>)) ''rules'')
             (ruleName \<lparr>pluginName = ''@'', ruleName = ''foo''\<rparr>) = JFun 7 []"
    by (simp add: function_config_def get_property_def)
  have e: "''foo'' \<noteq> ''__proto__''" "element [JNum 2, JStr ''x''] 0 \<noteq> JNum 0"
    by (simp_all add: element_def)
  have ra: "realm_allocated example_realm 100"
    by (rule example_realm_allocated)
  have ns: "\<forall>a ps. example_realm (JObj a ps) ''schema'' = JUndefined
                 \<and> example_realm (JObj a ps) ''meta'' = JUndefined"
    by (simp add: example_realm_def object_prototype_methods_def)
  have st: "calls ?st = [ResolveRule ''foo'', GetRuleOptionsSchema (JObj 100 [(''create'', JFun 7 [])])]"
    "next_address ?st = 101"
    by code_simp+
  note th = function_rule_never_cached [OF a refl r p e ra ns, where ajv = reference_engine
      and rr = no_replacements and h = 101]
  show ?thesis using th a r p e ra ns st by simp
qed

text \<open>
  The same configuration validated twice by a new validator: the entry is enabled and its
  rule is found, the schema is read twice, for two objects, and \<open>ajv.compile\<close> is never
  called.
\<close>

theorem function_rule_compiled_counterexample:
  "resolveRuleId example_realm ''foo'' function_config = Inr \<lparr>pluginName = ''@'', ruleName = ''foo''\<rparr>
   \<and> get_property example_realm (get_property example_realm (get_property example_realm (plugins function_config) ''@'') ''rules'') ''foo''
       = JFun 7 []
   \<and> rules function_config = Some [(''foo'', [JNum 2, JStr ''x''])]
   \<and> calls (validate_all example_realm reference_engine no_replacements (new_RuleValidator 100)
              [function_config, function_config])
       = [ResolveRule ''foo'', GetRuleOptionsSchema (JObj 100 [(''create'', JFun 7 [])]),
          ResolveRule ''foo'', GetRuleOptionsSchema (JObj 101 [(''create'', JFun 7 [])])]
   \<and> filter is_compile
        (calls (validate_all example_realm reference_engine no_replacements (new_RuleValidator 100)
                  [function_config, function_config])) = []"
  by code_simp

end
